theory Spec2Isabelle
  imports Main
begin

section \<open>The AWS S3 storage provider (src/providers/storage/awsS3.ts)\<close>

text \<open>
  A shallow embedding of the class \<open>AwsS3\<close>. JavaScript strings are modelled as
  \<open>string\<close>; a string that may be missing is a \<open>js_string\<close>, which tells \<open>undefined\<close>
  from \<open>null\<close>. A rejected promise or a thrown exception is the \<open>Inl\<close> branch of a
  sum. The AWS SDK (the constructor of the S3 client and the S3 service behind it) and
  the other libraries the class calls are parameters of the model.
\<close>

subsection \<open>Errors\<close>

text \<open>
  \<open>TypeError\<close> is what the JavaScript engine raises on a property access on
  \<open>undefined\<close> or \<open>null\<close>; \<open>Error msg\<close> is \<open>new Error(msg)\<close> thrown by the class
  itself; \<open>AWSError\<close> is an error of the AWS SDK: what the constructor of a client throws
  or what the promise of a request rejects with.
\<close>

datatype error = TypeError | Error string | AWSError string

text \<open>The errors that are a plain \<open>Error\<close> with a message and nothing else.\<close>

fun is_generic_Error :: "error \<Rightarrow> bool" where
  "is_generic_Error (Error msg) = True"
| "is_generic_Error TypeError = False"
| "is_generic_Error (AWSError code) = False"

definition fails_generically :: "error + 'a \<Rightarrow> bool" where
  "fails_generically r = (case r of Inl err \<Rightarrow> is_generic_Error err | Inr v \<Rightarrow> False)"

subsection \<open>JavaScript string primitives used by the class\<close>

text \<open>A string-valued field or argument: missing, \<open>null\<close>, or a string.\<close>

datatype js_string = Undefined | Null | Str string

text \<open>\<open>s.split(sep)\<close> for a separator of one character: never the empty array.\<close>

fun split :: "char \<Rightarrow> string \<Rightarrow> string list" where
  "split sep [] = [[]]"
| "split sep (c # cs) =
     (if c = sep then [] # split sep cs
      else (case split sep cs of
              [] \<Rightarrow> [[c]]
            | w # ws \<Rightarrow> (c # w) # ws))"

text \<open>\<open>s.endsWith(e)\<close>.\<close>

definition endsWith :: "string \<Rightarrow> string \<Rightarrow> bool" where
  "endsWith s e = (length e \<le> length s \<and> drop (length s - length e) s = e)"

text \<open>Truthiness: \<open>undefined\<close>, \<open>null\<close> and the empty string are falsy.\<close>

fun truthy :: "js_string \<Rightarrow> bool" where
  "truthy Undefined = False"
| "truthy Null = False"
| "truthy (Str s) = (s \<noteq> [])"

text \<open>
  The value inside a template literal: \<open>undefined\<close> and \<open>null\<close> print as their names.
\<close>

fun js_str :: "js_string \<Rightarrow> string" where
  "js_str Undefined = ''undefined''"
| "js_str Null = ''null''"
| "js_str (Str s) = s"

text \<open>\<open>xs.slice(1)\<close>: a copy of the array without its first element.\<close>

definition slice1 :: "'a list \<Rightarrow> 'a list" where
  "slice1 xs = drop 1 xs"

subsection \<open>getFileName\<close>

text \<open>
  \<^verbatim>\<open>const pathParts = url.split("/");
  return pathParts[pathParts.length - 1].split("?")[0];\<close>
  Both arrays are non-empty, so neither index is out of range.
\<close>

definition getFileName :: "string \<Rightarrow> string" where
  "getFileName url =
     (let pathParts = split (CHR ''/'') url
      in hd (split (CHR ''?'') (pathParts ! (length pathParts - 1))))"

subsection \<open>Options, the S3 client and its listing request\<close>

text \<open>
  \<open>IAwsS3Options\<close>. The interface declares every field but \<open>apiVersion\<close> as a
  required string; at run time any of them may be missing or \<open>null\<close>.
\<close>

record IAwsS3Options =
  accessKeyId :: js_string
  secretAccessKeyId :: js_string
  bucket :: js_string
  folder :: js_string
  region :: js_string
  apiVersion :: js_string

text \<open>
  The argument of \<open>new S3({region, apiVersion, accessKeyId, secretAccessKey})\<close>, and
  the client the constructor returns: the configuration it was given and \<open>ident\<close>, its
  identity as an object (the number of S3 clients constructed before it).
\<close>

record ClientConfiguration =
  client_region :: js_string
  client_apiVersion :: js_string
  client_accessKeyId :: js_string
  client_secretAccessKey :: js_string

record S3 =
  ident :: nat
  config :: ClientConfiguration

text \<open>
  The constructor of the SDK's client can throw (for an \<open>apiVersion\<close> that no API of
  the SDK satisfies): \<open>Some e\<close> when it throws \<open>e\<close> for a configuration, \<open>None\<close> when
  it returns the client.
\<close>

type_synonym s3_constructor = "ClientConfiguration \<Rightarrow> error option"

text \<open>
  The request and the answer of \<open>listObjectsV2\<close>. An element of \<open>Contents\<close> is an
  object descriptor (key, size), not a string; \<open>Contents\<close> itself is optional in the
  answer's type.
\<close>

record ListObjectsV2Request =
  Bucket :: js_string
  Prefix :: js_string

record S3Object =
  Key :: string
  Size :: nat

record ListObjectsV2Output =
  Contents :: "S3Object list option"

text \<open>
  The S3 service: what \<open>client.listObjectsV2(request).promise()\<close> settles to,
  a rejection (\<open>Inl\<close>) or an answer.
\<close>

type_synonym s3_service = "S3 \<Rightarrow> ListObjectsV2Request \<Rightarrow> error + ListObjectsV2Output"

text \<open>
  A descriptor inside a template literal is converted by \<open>Object.prototype.toString\<close>,
  which does not look at its fields.
\<close>

definition objectToString :: "S3Object \<Rightarrow> string" where
  "objectToString file = ''[object Object]''"

subsection \<open>The provider instance\<close>

text \<open>
  The two private fields of the class, and the world around it: \<open>s3_constructed\<close>
  counts the clients that \<open>new S3\<close> has returned so far, which gives each its identity.
\<close>

record AwsS3 =
  options :: IAwsS3Options
  S3Connection :: "S3 option"

record world =
  provider :: AwsS3
  s3_constructed :: nat

text \<open>
  \<^verbatim>\<open>constructor(private options?: IAwsS3Options) {
      if (!this.options.apiVersion) { this.options.apiVersion = 'latest'; }
  }\<close>
  The parameter is optional, and the body reads a field of it at once: with no options
  object (\<open>None\<close>: the argument omitted, \<open>undefined\<close> or \<open>null\<close>) the read throws.
\<close>

definition constructor :: "IAwsS3Options option \<Rightarrow> error + AwsS3" where
  "constructor arg =
     (case arg of
        None \<Rightarrow> Inl TypeError
      | Some opts \<Rightarrow>
          Inr \<lparr>options = (if \<not> truthy (apiVersion opts)
                           then opts\<lparr>apiVersion := Str ''latest''\<rparr> else opts),
               S3Connection = None\<rparr>)"

definition getFullPath :: "AwsS3 \<Rightarrow> string" where
  "getFullPath p = js_str (bucket (options p)) @ ''/'' @ js_str (folder (options p))"

text \<open>
  \<^verbatim>\<open>if (!this.S3Connection) { this.S3Connection = new S3({...}) }
  return this.S3Connection;\<close>
  Nothing catches what \<open>new S3\<close> throws: the field then stays unset and the caller
  fails with that error.
\<close>

definition getS3Connection :: "s3_constructor \<Rightarrow> world \<Rightarrow> (error + S3) \<times> world" where
  "getS3Connection new_S3 w =
     (case S3Connection (provider w) of
        Some c \<Rightarrow> (Inr c, w)
      | None \<Rightarrow>
          (let opts = options (provider w);
               configuration = \<lparr>client_region = region opts,
                                client_apiVersion = apiVersion opts,
                                client_accessKeyId = accessKeyId opts,
                                client_secretAccessKey = secretAccessKeyId opts\<rparr>
           in case new_S3 configuration of
                Some e \<Rightarrow> (Inl e, w)
              | None \<Rightarrow>
                  (let c = \<lparr>ident = s3_constructed w, config = configuration\<rparr>
                   in (Inr c, \<lparr>provider = (provider w)\<lparr>S3Connection := Some c\<rparr>,
                               s3_constructed = s3_constructed w + 1\<rparr>))))"

subsection \<open>Listing\<close>

text \<open>
  \<open>listContainers(path)\<close>: one request for the configured bucket and folder, the first
  element of the answer removed, each remaining descriptor put after the bucket name in a
  template literal. \<open>Contents.slice\<close> on a missing \<open>Contents\<close> is a \<open>TypeError\<close>.
\<close>

definition listContainers ::
  "s3_constructor \<Rightarrow> s3_service \<Rightarrow> js_string \<Rightarrow> world
     \<Rightarrow> (error + string list) \<times> world" where
  "listContainers new_S3 service path w =
     (let bucket' = bucket (options (provider w));
          (got, w') = getS3Connection new_S3 w
      in case got of
           Inl e \<Rightarrow> (Inl e, w')
         | Inr connection \<Rightarrow>
             (case service connection
                     \<lparr>Bucket = bucket', Prefix = folder (options (provider w))\<rparr> of
                Inl e \<Rightarrow> (Inl e, w')
              | Inr listObjectsOutput \<Rightarrow>
                  (case Contents listObjectsOutput of
                     None \<Rightarrow> (Inl TypeError, w')
                   | Some contents \<Rightarrow>
                       (let filesOnly = slice1 contents
                        in (Inr (map (\<lambda>file. js_str bucket' @ objectToString file)
                                   filesOnly),
                            w')))))"

text \<open>
  \<^verbatim>\<open>const files = await this.listContainers(null);
  return files.filter(file => !!ext ? file.endsWith(ext) : true)\<close>
\<close>

definition listFiles ::
  "s3_constructor \<Rightarrow> s3_service \<Rightarrow> js_string \<Rightarrow> js_string \<Rightarrow> world
     \<Rightarrow> (error + string list) \<times> world" where
  "listFiles new_S3 service path ext w =
     (case listContainers new_S3 service Null w of
        (Inl e, w') \<Rightarrow> (Inl e, w')
      | (Inr files, w') \<Rightarrow>
          (Inr (filter (\<lambda>file. if truthy ext then endsWith file (js_str ext) else True)
                  files),
           w'))"

text \<open>\<open>initialize()\<close> lists once and logs the answer to the console.\<close>

definition initialize ::
  "s3_constructor \<Rightarrow> s3_service \<Rightarrow> world \<Rightarrow> (error + unit) \<times> world" where
  "initialize new_S3 service w =
     (case listContainers new_S3 service Null w of
        (Inl e, w') \<Rightarrow> (Inl e, w')
      | (Inr files, w') \<Rightarrow> (Inr (), w'))"

subsection \<open>Reading\<close>

text \<open>
  The private helpers \<open>getBlockBlobURL\<close> and \<open>bodyToString\<close> only throw. The download
  of the blob behind a URL is a library call and a parameter; so is \<open>Buffer.from\<close>.
\<close>

definition getBlockBlobURL :: "string \<Rightarrow> error + 'u" where
  "getBlockBlobURL blobName = Inl (Error ''getBlockBlobURL not implemented for AwsS3 provider'')"

definition bodyToString :: "'r \<Rightarrow> error + string" where
  "bodyToString response = Inl (Error ''bodyToString not implemented for AwsS3 provider'')"

definition readText :: "('u \<Rightarrow> error + 'r) \<Rightarrow> string \<Rightarrow> error + string" where
  "readText download blobName =
     (case getBlockBlobURL blobName of
        Inl e \<Rightarrow> Inl e
      | Inr blockBlobURL \<Rightarrow>
          (case download blockBlobURL of
             Inl e \<Rightarrow> Inl e
           | Inr downloadResponse \<Rightarrow> bodyToString downloadResponse))"

text \<open>
  \<^verbatim>\<open>const text = await this.readText(blobName);
  return Buffer.from(text);\<close>
  \<open>this.readText\<close> is the method found on the instance; it is an argument here, and
  the class (in \<open>exec\<close> below) gives its own \<open>readText\<close> for it.
\<close>

definition readBinary ::
  "(string \<Rightarrow> error + string) \<Rightarrow> (string \<Rightarrow> 'buf) \<Rightarrow> string \<Rightarrow> error + 'buf" where
  "readBinary this_readText Buffer_from blobName =
     (case this_readText blobName of
        Inl e \<Rightarrow> Inl e
      | Inr text \<Rightarrow> Inr (Buffer_from text))"

subsection \<open>Operations that only throw\<close>

definition writeText :: "string \<Rightarrow> string + 'buf \<Rightarrow> error + unit" where
  "writeText blobName content = Inl (Error ''writeText not implemented'')"

definition writeBinary :: "string \<Rightarrow> 'buf \<Rightarrow> error + unit" where
  "writeBinary blobName content = writeText blobName (Inr content)"

definition deleteFile :: "string \<Rightarrow> error + unit" where
  "deleteFile blobName = Inl (Error ''deleteFile not implemented'')"

definition createContainer :: "string \<Rightarrow> error + unit" where
  "createContainer containerName =
     Inl (Error ''createContainer not implemented for AwsS3 provider'')"

definition deleteContainer :: "string \<Rightarrow> error + unit" where
  "deleteContainer containerName =
     Inl (Error ''deleteContainer not implemented for AwsS3 provider'')"

definition getAssets :: "js_string \<Rightarrow> error + 'asset list" where
  "getAssets containerName = Inl (Error ''getAssets not implemented for AwsS3 provider'')"

subsection \<open>A caller of the provider\<close>

text \<open>
  The public asynchronous methods as one datatype, the values they resolve to as another,
  and the libraries and the service a call runs against as a record. \<open>exec\<close> performs one
  call on an instance; \<open>run\<close> performs a sequence of calls, each against the service as
  it is at that moment, going on after a call that failed as a caller that catches the
  rejection does. The constructor of the S3 client is code of the SDK and the same for
  every call.
\<close>

datatype 'buf operation =
    Initialize
  | ReadText string
  | ReadBinary string
  | WriteText string "string + 'buf"
  | WriteBinary string 'buf
  | DeleteFile string
  | ListFiles js_string js_string
  | ListContainers js_string
  | CreateContainer string
  | DeleteContainer string
  | GetAssets js_string

datatype ('buf, 'asset) outcome =
    Void
  | Text string
  | Buffer 'buf
  | Names "string list"
  | Assets "'asset list"

record ('u, 'r, 'buf) env =
  listObjectsV2 :: s3_service
  download :: "'u \<Rightarrow> error + 'r"
  Buffer_from :: "string \<Rightarrow> 'buf"

fun exec ::
  "s3_constructor \<Rightarrow> ('u, 'r, 'buf) env \<Rightarrow> 'buf operation \<Rightarrow> world
     \<Rightarrow> (error + ('buf, 'asset) outcome) \<times> world" where
  "exec new_S3 e Initialize w =
     (case initialize new_S3 (listObjectsV2 e) w of
        (r, w') \<Rightarrow> (map_sum id (\<lambda>_. Void) r, w'))"
| "exec new_S3 e (ReadText blobName) w =
     (map_sum id Text (readText (download e) blobName), w)"
| "exec new_S3 e (ReadBinary blobName) w =
     (map_sum id Buffer (readBinary (readText (download e)) (Buffer_from e) blobName), w)"
| "exec new_S3 e (WriteText blobName content) w =
     (map_sum id (\<lambda>_. Void) (writeText blobName content), w)"
| "exec new_S3 e (WriteBinary blobName content) w =
     (map_sum id (\<lambda>_. Void) (writeBinary blobName content), w)"
| "exec new_S3 e (DeleteFile blobName) w =
     (map_sum id (\<lambda>_. Void) (deleteFile blobName), w)"
| "exec new_S3 e (ListFiles path ext) w =
     (case listFiles new_S3 (listObjectsV2 e) path ext w of
        (r, w') \<Rightarrow> (map_sum id Names r, w'))"
| "exec new_S3 e (ListContainers path) w =
     (case listContainers new_S3 (listObjectsV2 e) path w of
        (r, w') \<Rightarrow> (map_sum id Names r, w'))"
| "exec new_S3 e (CreateContainer containerName) w =
     (map_sum id (\<lambda>_. Void) (createContainer containerName), w)"
| "exec new_S3 e (DeleteContainer containerName) w =
     (map_sum id (\<lambda>_. Void) (deleteContainer containerName), w)"
| "exec new_S3 e (GetAssets containerName) w =
     (map_sum id Assets (getAssets containerName), w)"

fun run ::
  "s3_constructor \<Rightarrow> (('u, 'r, 'buf) env \<times> 'buf operation) list \<Rightarrow> world \<Rightarrow> world" where
  "run new_S3 [] w = w"
| "run new_S3 ((e, operation) # rest) w =
     run new_S3 rest
       (snd (exec new_S3 e operation w :: (error + ('buf, unit) outcome) \<times> world))"

text \<open>The operations that go through the S3 connection.\<close>

fun needs_connection :: "'buf operation \<Rightarrow> bool" where
  "needs_connection Initialize = True"
| "needs_connection (ListFiles path ext) = True"
| "needs_connection (ListContainers path) = True"
| "needs_connection _ = False"

subsection \<open>Concrete instances\<close>

text \<open>
  Inputs for the examples below: an options object and the provider the constructor
  makes of it; the same with an \<open>apiVersion\<close> of its own; three answers of the service
  for the prefix \<open>images\<close> (keys in the order S3 returns them, which is the order of
  their bytes: \<open>-\<close> sorts before \<open>/\<close>); a constructor of the client that knows the
  version \<open>latest\<close> only; and a service that gives a fixed answer to a client with
  credentials and rejects one without.
\<close>

definition example_options :: IAwsS3Options where
  "example_options =
     \<lparr>accessKeyId = Str ''AKIAEXAMPLE'', secretAccessKeyId = Str ''secret'',
      bucket = Str ''my-bucket'', folder = Str ''images'',
      region = Str ''us-east-1'', apiVersion = Undefined\<rparr>"

definition example_provider :: AwsS3 where
  "example_provider =
     \<lparr>options = example_options\<lparr>apiVersion := Str ''latest''\<rparr>, S3Connection = None\<rparr>"

definition example_world :: world where
  "example_world = \<lparr>provider = example_provider, s3_constructed = 0\<rparr>"

definition options_old_version :: IAwsS3Options where
  "options_old_version = example_options\<lparr>apiVersion := Str ''1999-01-01''\<rparr>"

definition example_contents :: "S3Object list" where
  "example_contents =
     [\<lparr>Key = ''images-old/a.png'', Size = 7\<rparr>,
      \<lparr>Key = ''images/'', Size = 0\<rparr>,
      \<lparr>Key = ''images/b.png'', Size = 9\<rparr>]"

definition example_contents_root_first :: "S3Object list" where
  "example_contents_root_first =
     [\<lparr>Key = ''images/'', Size = 0\<rparr>,
      \<lparr>Key = ''images/b.png'', Size = 9\<rparr>]"

definition example_contents_png :: "S3Object list" where
  "example_contents_png =
     [\<lparr>Key = ''images/'', Size = 0\<rparr>,
      \<lparr>Key = ''images/b.png'', Size = 9\<rparr>,
      \<lparr>Key = ''images/c.png'', Size = 5\<rparr>]"

definition example_new_S3 :: s3_constructor where
  "example_new_S3 configuration =
     (if client_apiVersion configuration = Str ''latest'' then None
      else Some (AWSError ''Could not find API configuration''))"

definition answering :: "S3Object list \<Rightarrow> s3_service" where
  "answering contents client request =
     (if truthy (client_accessKeyId (config client))
         \<and> truthy (client_secretAccessKey (config client))
      then Inr \<lparr>Contents = Some contents\<rparr>
      else Inl (AWSError ''CredentialsError''))"

definition example_env :: "S3Object list \<Rightarrow> (unit, unit, string) env" where
  "example_env contents =
     \<lparr>listObjectsV2 = answering contents, download = (\<lambda>u. Inr ()), Buffer_from = (\<lambda>s. s)\<rparr>"

section \<open>Properties\<close>

subsection \<open>Splitting\<close>

lemma split_not_Nil: "split sep s \<noteq> []"
  by (induction s) (auto split: list.splits)

lemma hd_split: "hd (split sep s) = takeWhile (\<lambda>c. c \<noteq> sep) s"
proof (induction s)
  case Nil
  show ?case by simp
next
  case (Cons c cs)
  then show ?case
    using split_not_Nil [of sep cs] by (auto split: list.splits)
qed

lemma split_no_sep: "sep \<notin> set s \<Longrightarrow> split sep s = [s]"
  by (induction s) auto

lemma split_append_sep: "split sep (a @ sep # b) = split sep a @ split sep b"
proof (induction a)
  case Nil
  show ?case by simp
next
  case (Cons c a)
  then show ?case
    using split_not_Nil [of sep a] by (auto split: list.splits)
qed

lemma last_split_whole: "sep \<notin> set s \<Longrightarrow> last (split sep s) = s"
  by (simp add: split_no_sep)

lemma last_split_after:
  "sep \<notin> set seg \<Longrightarrow> last (split sep (pre @ sep # seg)) = seg"
  by (simp add: split_append_sep split_no_sep)

lemma getFileName_eq:
  "getFileName url = takeWhile (\<lambda>c. c \<noteq> CHR ''?'') (last (split (CHR ''/'') url))"
  by (simp add: getFileName_def Let_def hd_split last_conv_nth split_not_Nil)



subsection \<open>The connection and the listing\<close>

lemmas example_defs =
  example_options_def example_provider_def example_world_def options_old_version_def
  example_contents_def example_contents_root_first_def example_contents_png_def
  example_new_S3_def answering_def example_env_def

lemma getS3Connection_memo:
  "S3Connection (provider w) = Some c \<Longrightarrow> getS3Connection new_S3 w = (Inr c, w)"
  by (simp add: getS3Connection_def)

lemma getS3Connection_options:
  "options (provider (snd (getS3Connection new_S3 w))) = options (provider w)"
  by (simp add: getS3Connection_def Let_def split: option.splits)

lemma getS3Connection_result:
  "(\<exists>e. getS3Connection new_S3 w = (Inl e, w))
   \<or> (\<exists>c. fst (getS3Connection new_S3 w) = Inr c
           \<and> S3Connection (provider (snd (getS3Connection new_S3 w))) = Some c)"
  by (simp add: getS3Connection_def Let_def split: option.splits)

lemma getS3Connection_idem:
  "getS3Connection new_S3 (snd (getS3Connection new_S3 w)) = getS3Connection new_S3 w"
  using getS3Connection_result [of new_S3 w]
proof (elim disjE exE conjE)
  fix e
  assume "getS3Connection new_S3 w = (Inl e, w)"
  then show ?thesis by simp
next
  fix c
  assume c: "fst (getS3Connection new_S3 w) = Inr c"
    and s: "S3Connection (provider (snd (getS3Connection new_S3 w))) = Some c"
  from getS3Connection_memo [OF s, of new_S3] c show ?thesis
    by (simp add: prod_eq_iff)
qed

lemma listContainers_eq:
  "listContainers new_S3 service path w =
     (case fst (getS3Connection new_S3 w) of
        Inl e \<Rightarrow> Inl e
      | Inr connection \<Rightarrow>
          (case service connection
                  \<lparr>Bucket = bucket (options (provider w)),
                   Prefix = folder (options (provider w))\<rparr> of
             Inl e \<Rightarrow> Inl e
           | Inr listObjectsOutput \<Rightarrow>
               (case Contents listObjectsOutput of
                  None \<Rightarrow> Inl TypeError
                | Some contents \<Rightarrow>
                    Inr (map (\<lambda>file. js_str (bucket (options (provider w)))
                                       @ objectToString file)
                           (slice1 contents)))),
      snd (getS3Connection new_S3 w))"
  by (simp add: listContainers_def Let_def case_prod_beta split: sum.splits option.splits)

lemma snd_listContainers:
  "snd (listContainers new_S3 service path w) = snd (getS3Connection new_S3 w)"
  by (simp add: listContainers_eq)

lemma fst_listContainers_cong:
  "fst (getS3Connection new_S3 w1) = fst (getS3Connection new_S3 w2) \<Longrightarrow>
   options (provider w1) = options (provider w2) \<Longrightarrow>
   fst (listContainers new_S3 service path w1) = fst (listContainers new_S3 service path w2)"
  by (simp add: listContainers_eq cong: sum.case_cong option.case_cong)

lemma listFiles_eq:
  "listFiles new_S3 service path ext w =
     (map_sum id (filter (\<lambda>file. if truthy ext then endsWith file (js_str ext) else True))
        (fst (listContainers new_S3 service Null w)),
      snd (getS3Connection new_S3 w))"
  using snd_listContainers [of new_S3 service Null w]
  by (auto simp add: listFiles_def split: prod.splits sum.splits)

lemma initialize_eq:
  "initialize new_S3 service w =
     (map_sum id (\<lambda>files. ()) (fst (listContainers new_S3 service Null w)),
      snd (getS3Connection new_S3 w))"
  using snd_listContainers [of new_S3 service Null w]
  by (auto simp add: initialize_def split: prod.splits sum.splits)

lemma snd_exec:
  "snd (exec new_S3 e operation w)
     = (if needs_connection operation then snd (getS3Connection new_S3 w) else w)"
  by (cases operation)
     (simp_all add: initialize_eq listFiles_eq snd_listContainers case_prod_beta)

lemma fst_exec_cong:
  assumes "fst (getS3Connection new_S3 w1) = fst (getS3Connection new_S3 w2)"
    and "options (provider w1) = options (provider w2)"
  shows "fst (exec new_S3 e operation w1) = fst (exec new_S3 e operation w2)"
proof -
  have "fst (listContainers new_S3 (listObjectsV2 e) path w1)
          = fst (listContainers new_S3 (listObjectsV2 e) path w2)" for path
    using assms by (rule fst_listContainers_cong)
  then show ?thesis
    by (cases operation) (simp_all add: initialize_eq listFiles_eq case_prod_beta)
qed

lemma run_memo: "S3Connection (provider w) = Some c \<Longrightarrow> run new_S3 steps w = w"
proof (induction steps)
  case Nil
  show ?case by simp
next
  case (Cons step steps)
  obtain e operation where step: "step = (e, operation)" by (cases step)
  have "snd (exec new_S3 e operation w :: (error + ('c, unit) outcome) \<times> world) = w"
    using Cons.prems by (simp add: snd_exec getS3Connection_memo)
  with Cons step show ?case by simp
qed

lemma run_append: "run new_S3 (xs @ ys) w = run new_S3 ys (run new_S3 xs w)"
  by (induction xs arbitrary: w) auto

lemma run_connection:
  "run new_S3 steps w = (if (\<exists>step \<in> set steps. needs_connection (snd step))
                         then snd (getS3Connection new_S3 w) else w)"
proof (induction steps)
  case Nil
  show ?case by simp
next
  case (Cons step steps)
  obtain e operation where step: "step = (e, operation)" by (cases step)
  show ?case
  proof (cases "needs_connection operation")
    case True
    then have r: "run new_S3 (step # steps) w = run new_S3 steps (snd (getS3Connection new_S3 w))"
      using step by (simp add: snd_exec)
    have "run new_S3 steps (snd (getS3Connection new_S3 w)) = snd (getS3Connection new_S3 w)"
      using getS3Connection_result [of new_S3 w]
    proof (elim disjE exE conjE)
      fix err
      assume "getS3Connection new_S3 w = (Inl err, w)"
      then have "snd (getS3Connection new_S3 w) = w" by simp
      with Cons.IH show ?thesis by simp
    next
      fix c
      assume "S3Connection (provider (snd (getS3Connection new_S3 w))) = Some c"
      then show ?thesis by (rule run_memo)
    qed
    with r True step show ?thesis by simp
  next
    case False
    then have "run new_S3 (step # steps) w = run new_S3 steps w"
      using step by (simp add: snd_exec)
    with Cons False step show ?thesis by simp
  qed
qed

text \<open>
  When the request is answered, every entry of the result is the same string: the
  conversion of a descriptor does not depend on the descriptor.
\<close>

lemma listContainers_entries_constant:
  assumes "fst (getS3Connection new_S3 w) = Inr connection"
    and "service connection
           \<lparr>Bucket = bucket (options (provider w)), Prefix = folder (options (provider w))\<rparr>
         = Inr \<lparr>Contents = Some contents\<rparr>"
  shows "fst (listContainers new_S3 service path w)
           = Inr (replicate (length contents - 1)
                    (js_str (bucket (options (provider w))) @ ''[object Object]''))"
  using assms
  by (simp add: listContainers_eq slice1_def objectToString_def map_replicate_const)

subsection \<open>Readiness\<close>

text \<open>
  C1 (as the code has it). The class keeps no readiness state and no operation fails with
  a not-ready error: every operation returns the same outcome on an instance whether or
  not \<open>initialize()\<close> was called on it before, and whether or not that call succeeded.
  On an instance straight from the constructor, \<open>listContainers\<close> and \<open>listFiles\<close>
  succeed whenever the client is built and the listing request succeeds.
\<close>

theorem no_readiness_gate:
  "fst (exec new_S3 e operation (run new_S3 [(e0, Initialize)] w))
     = fst (exec new_S3 e operation w)
   \<and> (constructor (Some opts) = Inr p \<longrightarrow>
        fst (getS3Connection new_S3 \<lparr>provider = p, s3_constructed = n\<rparr>) = Inr connection \<longrightarrow>
        listObjectsV2 e connection \<lparr>Bucket = bucket opts, Prefix = folder opts\<rparr>
          = Inr \<lparr>Contents = Some contents\<rparr> \<longrightarrow>
        (\<exists>names. fst (exec new_S3 e (ListContainers path) \<lparr>provider = p, s3_constructed = n\<rparr>)
                    = Inr (Names names))
        \<and> (\<exists>names. fst (exec new_S3 e (ListFiles path ext) \<lparr>provider = p, s3_constructed = n\<rparr>)
                    = Inr (Names names)))"
proof (intro conjI impI)
  have "run new_S3 [(e0, Initialize)] w = snd (getS3Connection new_S3 w)"
    by (simp add: snd_exec del: exec.simps)
  moreover have "fst (exec new_S3 e operation (snd (getS3Connection new_S3 w)))
                   = fst (exec new_S3 e operation w)"
    by (rule fst_exec_cong) (simp_all add: getS3Connection_idem getS3Connection_options)
  ultimately show "fst (exec new_S3 e operation (run new_S3 [(e0, Initialize)] w))
                     = fst (exec new_S3 e operation w)"
    by simp
next
  assume c: "constructor (Some opts) = Inr p"
    and g: "fst (getS3Connection new_S3 \<lparr>provider = p, s3_constructed = n\<rparr>) = Inr connection"
    and l: "listObjectsV2 e connection \<lparr>Bucket = bucket opts, Prefix = folder opts\<rparr>
              = Inr \<lparr>Contents = Some contents\<rparr>"
  from c have o: "bucket (options p) = bucket opts" "folder (options p) = folder opts"
    by (auto simp: constructor_def split: if_splits)
  show "\<exists>names. fst (exec new_S3 e (ListContainers path) \<lparr>provider = p, s3_constructed = n\<rparr>)
                    = Inr (Names names)"
    using g l o by (simp add: listContainers_eq case_prod_beta)
  show "\<exists>names. fst (exec new_S3 e (ListFiles path ext) \<lparr>provider = p, s3_constructed = n\<rparr>)
                    = Inr (Names names)"
    using g l o by (simp add: listFiles_eq listContainers_eq case_prod_beta)
qed

theorem no_readiness_gate_witness:
  "constructor (Some example_options) = Inr example_provider
   \<and> (\<exists>names. fst (exec example_new_S3 (example_env example_contents)
                       (ListFiles Null (Str ''.png''))
                       \<lparr>provider = example_provider, s3_constructed = 0\<rparr>)
                = Inr (Names names))"
proof -
  have c: "constructor (Some example_options) = Inr example_provider"
    by (simp add: constructor_def example_defs)
  have g: "fst (getS3Connection example_new_S3
                  \<lparr>provider = example_provider, s3_constructed = 0\<rparr>)
             = Inr \<lparr>ident = 0,
                    config = \<lparr>client_region = Str ''us-east-1'',
                              client_apiVersion = Str ''latest'',
                              client_accessKeyId = Str ''AKIAEXAMPLE'',
                              client_secretAccessKey = Str ''secret''\<rparr>\<rparr>"
    by (simp add: getS3Connection_def example_defs Let_def)
  have l: "listObjectsV2 (example_env example_contents)
             \<lparr>ident = 0,
              config = \<lparr>client_region = Str ''us-east-1'',
                        client_apiVersion = Str ''latest'',
                        client_accessKeyId = Str ''AKIAEXAMPLE'',
                        client_secretAccessKey = Str ''secret''\<rparr>\<rparr>
             \<lparr>Bucket = bucket example_options, Prefix = folder example_options\<rparr>
           = Inr \<lparr>Contents = Some example_contents\<rparr>"
    by (simp add: example_env_def answering_def)
  from no_readiness_gate [THEN conjunct2, rule_format, OF c g l] c show ?thesis
    by blast
qed

text \<open>
  The claim as written fails: \<open>listFiles\<close> on an instance that was never initialized
  returns a listing.
\<close>

theorem listFiles_succeeds_uninitialized:
  "constructor (Some example_options) = Inr example_provider
   \<and> S3Connection example_provider = None
   \<and> fst (exec example_new_S3 (example_env example_contents) (ListFiles Null Undefined)
             \<lparr>provider = example_provider, s3_constructed = 0\<rparr>)
       = Inr (Names [''my-bucket[object Object]'', ''my-bucket[object Object]''])"
  by (simp add: constructor_def example_defs listFiles_def listContainers_def
      getS3Connection_def slice1_def objectToString_def Let_def)

subsection \<open>The listing\<close>

text \<open>
  C2. The claim: the result never has the entry of the scoped root, because the first raw
  entry, the root's, is dropped. The code drops the first raw entry by position. For the
  prefix \<open>images\<close> the key \<open>images-old/a.png\<close> comes before the marker \<open>images/\<close>
  of the folder: the slice removes the entry of a file, keeps the marker, and the result
  has an entry for the marker.
\<close>

theorem listContainers_keeps_root_entry:
  "fst (listContainers example_new_S3 (answering example_contents) Null example_world)
     = Inr [''my-bucket[object Object]'', ''my-bucket[object Object]'']
   \<and> slice1 example_contents
       = [\<lparr>Key = ''images/'', Size = 0\<rparr>, \<lparr>Key = ''images/b.png'', Size = 9\<rparr>]
   \<and> Key (hd (slice1 example_contents))
       = js_str (folder (options (provider example_world))) @ ''/''
   \<and> Key (hd example_contents) = ''images-old/a.png''"
  by (simp add: example_defs listContainers_def getS3Connection_def slice1_def
      objectToString_def Let_def)

text \<open>
  C7. The claim: each entry of \<open>listContainers\<close> is the bucket name followed by the key
  of the object. The code puts the descriptor itself, not its key, into the template
  literal: for a listing of the folder marker and \<open>images/b.png\<close> in the bucket
  \<open>my-bucket\<close> it returns \<open>my-bucket[object Object]\<close>, not \<open>my-bucketimages/b.png\<close>.
\<close>

theorem listContainers_entries_are_not_keys:
  "fst (listContainers example_new_S3 (answering example_contents_root_first) Null
          example_world)
     = Inr [''my-bucket[object Object]'']
   \<and> fst (listContainers example_new_S3 (answering example_contents_root_first) Null
            example_world)
     \<noteq> Inr [''my-bucket'' @ Key \<lparr>Key = ''images/b.png'', Size = 9\<rparr>]"
  by (simp add: example_defs listContainers_def getS3Connection_def slice1_def
      objectToString_def Let_def)

text \<open>
  C6. The claim: \<open>listFiles\<close> with an extension returns the entries whose key ends with
  it, so a filter that every key matches returns what no filter returns. The code tests
  the strings \<open>listContainers\<close> made, which do not hold the keys: for a listing whose
  files are \<open>images/b.png\<close> and \<open>images/c.png\<close>, the filter \<open>.png\<close> returns nothing
  and no filter returns two entries.
\<close>

theorem listFiles_extension_matches_no_key:
  "fst (listFiles example_new_S3 (answering example_contents_png) (Str ''images'')
          (Str ''.png'') example_world)
     = Inr []
   \<and> fst (listFiles example_new_S3 (answering example_contents_png) (Str ''images'')
            Undefined example_world)
     = Inr [''my-bucket[object Object]'', ''my-bucket[object Object]'']
   \<and> map Key (slice1 example_contents_png) = [''images/b.png'', ''images/c.png'']
   \<and> endsWith ''images/b.png'' ''.png'' \<and> endsWith ''images/c.png'' ''.png''"
  by (simp add: example_defs listFiles_def listContainers_def getS3Connection_def slice1_def
      objectToString_def endsWith_def Let_def)

text \<open>
  C10. The path argument has no effect: for any two paths, \<open>listFiles\<close> with the same
  extension and \<open>listContainers\<close> return the same result and leave the same instance.
\<close>

theorem listing_ignores_path:
  "listFiles new_S3 service p1 ext w = listFiles new_S3 service p2 ext w
   \<and> listContainers new_S3 service p1 w = listContainers new_S3 service p2 w"
  by (simp add: listFiles_def listContainers_def)

subsection \<open>Operations that only throw\<close>

text \<open>
  C3 (as the code has it). For every input and on every instance, \<open>writeText\<close>,
  \<open>writeBinary\<close>, \<open>deleteFile\<close>, \<open>createContainer\<close>, \<open>deleteContainer\<close> and
  \<open>getAssets\<close> fail and leave the instance as it was. The failure is a plain
  \<open>Error\<close> whose message is fixed for the operation (for \<open>writeBinary\<close>, the message
  of \<open>writeText\<close>); there is no outcome of its own for an unsupported operation.
\<close>

theorem unsupported_operations_fail:
  "exec new_S3 e (WriteText blobName content) w
     = (Inl (Error ''writeText not implemented''), w)
   \<and> exec new_S3 e (WriteBinary blobName buffer) w
       = (Inl (Error ''writeText not implemented''), w)
   \<and> exec new_S3 e (DeleteFile blobName) w = (Inl (Error ''deleteFile not implemented''), w)
   \<and> exec new_S3 e (CreateContainer containerName) w
       = (Inl (Error ''createContainer not implemented for AwsS3 provider''), w)
   \<and> exec new_S3 e (DeleteContainer containerName) w
       = (Inl (Error ''deleteContainer not implemented for AwsS3 provider''), w)
   \<and> exec new_S3 e (GetAssets container) w
       = (Inl (Error ''getAssets not implemented for AwsS3 provider''), w)
   \<and> fails_generically (fst (exec new_S3 e (WriteText blobName content) w))
   \<and> fails_generically (fst (exec new_S3 e (WriteBinary blobName buffer) w))
   \<and> fails_generically (fst (exec new_S3 e (DeleteFile blobName) w))
   \<and> fails_generically (fst (exec new_S3 e (CreateContainer containerName) w))
   \<and> fails_generically (fst (exec new_S3 e (DeleteContainer containerName) w))
   \<and> fails_generically (fst (exec new_S3 e (GetAssets container) w))"
  by (simp add: writeText_def writeBinary_def deleteFile_def createContainer_def
      deleteContainer_def getAssets_def fails_generically_def)

text \<open>
  The claim as written fails: the failure of an unsupported operation is not an outcome
  that can be told from other failures by its kind. \<open>deleteFile\<close> fails with a plain
  \<open>Error\<close>, as \<open>readText\<close> does, and \<open>writeBinary\<close> with the very error of
  \<open>writeText\<close>; only the text of the message differs.
\<close>

theorem unsupported_failure_is_plain_error:
  "fails_generically (fst (exec example_new_S3 (example_env []) (DeleteFile ''a.png'')
                             example_world))
   \<and> fails_generically (fst (exec example_new_S3 (example_env []) (ReadText ''a.png'')
                               example_world))
   \<and> fst (exec example_new_S3 (example_env []) (WriteBinary ''a.png'' ''data'') example_world)
       = fst (exec example_new_S3 (example_env []) (WriteText ''a.png'' (Inl ''data''))
                example_world)"
  by (simp add: deleteFile_def readText_def getBlockBlobURL_def writeBinary_def writeText_def
      fails_generically_def)

subsection \<open>Reading\<close>

text \<open>
  C4 (as the code has it). \<open>readBinary\<close> is defined through the text-read method:
  whatever that method is, \<open>readBinary\<close> passes its error on unchanged and returns the
  encoding of the text it returns. The \<open>readText\<close> of this class fails for every blob
  name with the error of \<open>getBlockBlobURL\<close>, so the \<open>readBinary\<close> of this class
  fails with that same error for every blob name and returns no buffer.
\<close>

theorem readBinary_through_readText:
  "readBinary text_read encode blobName = map_sum id encode (text_read blobName)
   \<and> readBinary (\<lambda>name. Inr text) encode blobName = Inr (encode text)
   \<and> readText fetch blobName
       = Inl (Error ''getBlockBlobURL not implemented for AwsS3 provider'')
   \<and> readBinary (readText fetch) encode blobName
       = Inl (Error ''getBlockBlobURL not implemented for AwsS3 provider'')
   \<and> exec new_S3 e (ReadBinary blobName) w
       = (Inl (Error ''getBlockBlobURL not implemented for AwsS3 provider''), w)"
  by (simp add: readBinary_def readText_def getBlockBlobURL_def split: sum.splits)

text \<open>The claim as written fails: \<open>readBinary\<close> returns no buffer.\<close>

theorem readBinary_returns_no_buffer:
  "fst (exec example_new_S3 (example_env []) (ReadBinary ''a.png'') example_world)
     = Inl (Error ''getBlockBlobURL not implemented for AwsS3 provider'')
   \<and> fst (exec example_new_S3 (example_env []) (ReadText ''a.png'') example_world)
     = Inl (Error ''getBlockBlobURL not implemented for AwsS3 provider'')"
  by (simp add: readBinary_def readText_def getBlockBlobURL_def)

subsection \<open>getFileName\<close>

text \<open>
  C5. For every URL string, \<open>getFileName\<close> returns the final \<open>/\<close>-delimited segment
  of the string, cut before its first \<open>?\<close>: the URL is that segment or ends with
  \<open>/\<close> and that segment, the segment holds no \<open>/\<close>, the result is the segment or
  is followed in it by \<open>?\<close> and a query, and the result holds no \<open>?\<close>. In particular
  \<open>getFileName "https://host/a/b/c.png?sig=xyz" = "c.png"\<close>.
\<close>

theorem getFileName_final_segment:
  "(\<exists>seg. (url = seg \<or> (\<exists>pre. url = pre @ ''/'' @ seg))
          \<and> CHR ''/'' \<notin> set seg
          \<and> (seg = getFileName url \<or> (\<exists>query. seg = getFileName url @ ''?'' @ query)))
   \<and> CHR ''?'' \<notin> set (getFileName url)
   \<and> getFileName ''https://host/a/b/c.png?sig=xyz'' = ''c.png''"
proof (intro conjI)
  let ?seg = "last (split (CHR ''/'') url)"
  have seg: "(url = ?seg \<or> (\<exists>pre. url = pre @ ''/'' @ ?seg)) \<and> CHR ''/'' \<notin> set ?seg"
  proof (cases "CHR ''/'' \<in> set url")
    case False
    then show ?thesis by (simp add: last_split_whole)
  next
    case True
    then obtain pre seg where u: "url = pre @ CHR ''/'' # seg" and n: "CHR ''/'' \<notin> set seg"
      by (meson split_list_last)
    then show ?thesis by (auto simp: last_split_after)
  qed
  have q: "?seg = getFileName url \<or> (\<exists>query. ?seg = getFileName url @ ''?'' @ query)"
  proof (cases "CHR ''?'' \<in> set ?seg")
    case False
    then have "takeWhile (\<lambda>c. c \<noteq> CHR ''?'') ?seg = ?seg"
      by (intro takeWhile_eq_all_conv [THEN iffD2]) auto
    then show ?thesis unfolding getFileName_eq by (intro disjI1) (rule sym)
  next
    case True
    have "?seg = takeWhile (\<lambda>c. c \<noteq> CHR ''?'') ?seg @ dropWhile (\<lambda>c. c \<noteq> CHR ''?'') ?seg"
      by simp
    moreover have "dropWhile (\<lambda>c. c \<noteq> CHR ''?'') ?seg \<noteq> []" using True by simp
    moreover have "hd (dropWhile (\<lambda>c. c \<noteq> CHR ''?'') ?seg) = CHR ''?''"
      using True hd_dropWhile [of "\<lambda>c. c \<noteq> CHR ''?''" ?seg] by auto
    ultimately have "\<exists>query. ?seg = takeWhile (\<lambda>c. c \<noteq> CHR ''?'') ?seg @ CHR ''?'' # query"
      by (metis list.collapse)
    then show ?thesis by (simp add: getFileName_eq)
  qed
  from seg q show "\<exists>seg. (url = seg \<or> (\<exists>pre. url = pre @ ''/'' @ seg))
          \<and> CHR ''/'' \<notin> set seg
          \<and> (seg = getFileName url \<or> (\<exists>query. seg = getFileName url @ ''?'' @ query))"
    by blast
  show "CHR ''?'' \<notin> set (getFileName url)"
    unfolding getFileName_eq by (metis (mono_tags, lifting) set_takeWhileD)
  show "getFileName ''https://host/a/b/c.png?sig=xyz'' = ''c.png''"
    by (simp add: getFileName_def)
qed

theorem getFileName_final_segment_witness:
  "CHR ''?'' \<notin> set (getFileName ''https://host/a/b/c.png?sig=xyz'')
   \<and> getFileName ''https://host/a/b/c.png?sig=xyz'' = ''c.png''"
  using getFileName_final_segment [of "''https://host/a/b/c.png?sig=xyz''"] by blast

subsection \<open>Construction\<close>

text \<open>
  C8. The claim: without a required field, and also without any options object,
  construction or first use fails with a configuration error, never with a crash on a
  missing reference. The constructor reads \<open>this.options.apiVersion\<close> before anything
  else: without an options object, \<open>new AwsS3()\<close> throws the engine's \<open>TypeError\<close>.
\<close>

theorem constructor_without_options_crashes:
  "constructor None = Inl TypeError"
  by (simp add: constructor_def)

subsection \<open>The connection\<close>

text \<open>
  C9. An instance holds no S3 client after construction. After any sequence of calls it
  holds a client exactly when one of the calls needed the connection and the SDK builds a
  client for the options; it is then the one client built at the first such call. At most
  one client is ever built; once it is held, \<open>getS3Connection\<close> returns it without
  changing anything, and no later call builds another. (The client is stored before the
  first \<open>await\<close> of a call, so calls in flight together change the instance as calls in
  sequence do.)
\<close>

theorem one_memoized_connection:
  assumes "constructor (Some opts) = Inr p"
  shows "S3Connection p = None
         \<and> S3Connection (provider (run new_S3 steps \<lparr>provider = p, s3_constructed = n\<rparr>))
             = (if (\<exists>step \<in> set steps. needs_connection (snd step))
                   \<and> new_S3 \<lparr>client_region = region (options p),
                              client_apiVersion = apiVersion (options p),
                              client_accessKeyId = accessKeyId (options p),
                              client_secretAccessKey = secretAccessKeyId (options p)\<rparr> = None
                then Some \<lparr>ident = n,
                           config = \<lparr>client_region = region (options p),
                                     client_apiVersion = apiVersion (options p),
                                     client_accessKeyId = accessKeyId (options p),
                                     client_secretAccessKey = secretAccessKeyId (options p)\<rparr>\<rparr>
                else None)
         \<and> s3_constructed (run new_S3 steps \<lparr>provider = p, s3_constructed = n\<rparr>)
             = (if S3Connection (provider (run new_S3 steps \<lparr>provider = p, s3_constructed = n\<rparr>))
                     = None
                then n else n + 1)
         \<and> s3_constructed (run new_S3 steps \<lparr>provider = p, s3_constructed = n\<rparr>) \<le> n + 1
         \<and> (\<forall>c. S3Connection (provider (run new_S3 steps \<lparr>provider = p, s3_constructed = n\<rparr>))
                  = Some c
               \<longrightarrow> getS3Connection new_S3 (run new_S3 steps \<lparr>provider = p, s3_constructed = n\<rparr>)
                     = (Inr c, run new_S3 steps \<lparr>provider = p, s3_constructed = n\<rparr>)
                   \<and> run new_S3 (steps @ later) \<lparr>provider = p, s3_constructed = n\<rparr>
                     = run new_S3 steps \<lparr>provider = p, s3_constructed = n\<rparr>)"
proof -
  let ?w = "\<lparr>provider = p, s3_constructed = n\<rparr>"
  let ?cfg = "\<lparr>client_region = region (options p),
               client_apiVersion = apiVersion (options p),
               client_accessKeyId = accessKeyId (options p),
               client_secretAccessKey = secretAccessKeyId (options p)\<rparr>"
  from assms have fresh: "S3Connection p = None"
    by (auto simp: constructor_def)
  have r: "run new_S3 steps ?w = (if (\<exists>step \<in> set steps. needs_connection (snd step))
                  then snd (getS3Connection new_S3 ?w) else ?w)"
    by (rule run_connection)
  have g: "snd (getS3Connection new_S3 ?w)
             = (if new_S3 ?cfg = None
                then \<lparr>provider = p\<lparr>S3Connection := Some \<lparr>ident = n, config = ?cfg\<rparr>\<rparr>,
                      s3_constructed = n + 1\<rparr>
                else ?w)"
    using fresh by (auto simp add: getS3Connection_def Let_def split: option.splits)
  have memo: "getS3Connection new_S3 (run new_S3 steps ?w) = (Inr c, run new_S3 steps ?w)
              \<and> run new_S3 (steps @ later) ?w = run new_S3 steps ?w"
    if "S3Connection (provider (run new_S3 steps ?w)) = Some c" for c
    using that by (simp add: getS3Connection_memo run_append run_memo)
  show ?thesis
    using fresh memo by (simp add: r g)
qed

theorem one_memoized_connection_witness:
  "constructor (Some example_options) = Inr example_provider
   \<and> S3Connection (provider (run example_new_S3
                                [(example_env example_contents, ReadText ''a.png'')]
                                example_world)) = None
   \<and> s3_constructed (run example_new_S3
                        [(example_env example_contents, ListFiles Null Undefined),
                         (example_env [], Initialize),
                         (example_env example_contents, ListContainers Null)]
                        example_world) = 1
   \<and> S3Connection (provider (run example_new_S3
                                [(example_env example_contents, ListFiles Null Undefined)]
                                \<lparr>provider = \<lparr>options = options_old_version,
                                             S3Connection = None\<rparr>,
                                 s3_constructed = 0\<rparr>)) = None"
proof -
  have c: "constructor (Some example_options) = Inr example_provider"
    by (simp add: constructor_def example_defs)
  have d: "constructor (Some options_old_version)
             = Inr \<lparr>options = options_old_version, S3Connection = None\<rparr>"
    by (simp add: constructor_def example_defs)
  have a: "S3Connection (provider (run example_new_S3
                                [(example_env example_contents, ReadText ''a.png'')]
                                example_world)) = None"
    using one_memoized_connection
            [OF c, of example_new_S3 "[(example_env example_contents, ReadText ''a.png'')]" 0]
    by (simp add: example_world_def)
  let ?steps = "[(example_env example_contents, ListFiles Null Undefined),
                 (example_env [], Initialize),
                 (example_env example_contents, ListContainers Null)]"
  have b: "s3_constructed (run example_new_S3 ?steps example_world) = 1"
    using one_memoized_connection [OF c, of example_new_S3 ?steps 0]
    by (simp add: example_world_def example_provider_def example_options_def
        example_new_S3_def)
  have f: "S3Connection (provider (run example_new_S3
                                [(example_env example_contents, ListFiles Null Undefined)]
                                \<lparr>provider = \<lparr>options = options_old_version,
                                             S3Connection = None\<rparr>,
                                 s3_constructed = 0\<rparr>)) = None"
    using one_memoized_connection
            [OF d, of example_new_S3
               "[(example_env example_contents, ListFiles Null Undefined)]" 0]
    by (simp add: options_old_version_def example_options_def example_new_S3_def)
  from c a b f show ?thesis by simp
qed

end
